theory Spec2Isabelle
  imports Complex_Main "HOL-Library.Word"
begin

unbundle bit_operations_syntax

section \<open>Data model of package cognito\<close>

text \<open>
  The package source \<^verbatim>\<open>cognito.go\<close> is present in two revisions. The first listing
  defines \<^verbatim>\<open>NewCognitoClient\<close>, \<^verbatim>\<open>VerifyToken\<close>, \<^verbatim>\<open>getCert\<close>, \<^verbatim>\<open>getPublicKeys\<close> and
  \<^verbatim>\<open>parsePEM\<close>; the second listing defines \<^verbatim>\<open>NewCognito\<close>, \<^verbatim>\<open>VerifyToken\<close>,
  \<^verbatim>\<open>getCert\<close>, \<^verbatim>\<open>getPublicKeys\<close> and \<^verbatim>\<open>SetPEM\<close>. Functions of the second listing
  whose name also occurs in the first carry the suffix \<open>2\<close> here.

  Go strings are byte sequences, so they are \<^typ>\<open>string\<close> here (a \<^typ>\<open>char\<close> is one
  byte). A Go \<^verbatim>\<open>error\<close> is a value carrying a message; the constructors below are the
  error shapes that the package and the libraries it calls produce.
\<close>

datatype error =
    ErrorString string
  | WrapError string error
  | CorruptInputError nat
  | ValidationError "error option" "32 word" string

text \<open>A call either returns or panics (Go run-time panic, with its message).\<close>

datatype 'a outcome = Returns 'a | Panics string

text \<open>\<^verbatim>\<open>var ErrInvalidParam = errors.New("invalid param")\<close>\<close>

definition ErrInvalidParam :: error where
  "ErrInvalidParam = ErrorString ''invalid param''"

text \<open>\<^verbatim>\<open>rsa.PublicKey{N *big.Int; E int}\<close>; the modulus built by the package is never negative.\<close>

record rsa_PublicKey =
  rsa_N :: nat
  rsa_E :: int

record PublicKey =
  Alg :: string
  E :: string
  Kid :: string
  Kty :: string
  N :: string
  Use :: string
  PEM :: "rsa_PublicKey option"

type_synonym PublicKeys = "string \<rightharpoonup> PublicKey"

record Cognito =
  ClientId :: string
  Iss :: string
  PublicKeys :: PublicKeys

text \<open>
  A decoded JSON value as \<^verbatim>\<open>encoding/json\<close> stores it in an \<^verbatim>\<open>interface{}\<close>: nil, bool,
  float64, string, \<^verbatim>\<open>[]interface{}\<close> or \<^verbatim>\<open>map[string]interface{}\<close>. A decoded float64 is
  finite, hence a rational number.
\<close>

datatype json =
    JNull
  | JBool bool
  | JNumber rat
  | JString string
  | JArray "json list"
  | JObject "(string \<times> json) list"

type_synonym MapClaims = "string \<rightharpoonup> json"

text \<open>
  \<^verbatim>\<open>jwt.Token\<close>. The field \<open>Method\<close> holds the signing method by the name its \<^verbatim>\<open>Alg()\<close>
  returns; \<open>None\<close> is the nil interface.
\<close>

record Token =
  Raw :: string
  Method :: "string option"
  Header :: "string \<rightharpoonup> json"
  Claims :: MapClaims
  Signature :: string
  Valid :: bool

section \<open>Library primitives taken as parameters\<close>

text \<open>
  Functions of the Go standard library and of \<^verbatim>\<open>github.com/dgrijalva/jwt-go\<close> whose
  results depend on encodings, cryptography or the network are parameters of the model:
  \<^item> \<open>base64_DecodeString\<close>: \<^verbatim>\<open>base64.RawURLEncoding.DecodeString\<close>;
  \<^item> \<open>http_Get\<close>: \<^verbatim>\<open>client.Get(url)\<close> followed by reading the response body;
  \<^item> \<open>json_Decode_keys\<close>: \<^verbatim>\<open>json.NewDecoder(body).Decode\<close> into \<^verbatim>\<open>struct{Keys []PublicKey}\<close>;
  \<^item> \<open>DecodeSegment\<close>: \<^verbatim>\<open>jwt.DecodeSegment\<close>;
  \<^item> \<open>json_Unmarshal\<close>: \<^verbatim>\<open>json.Unmarshal\<close> into the token header map;
  \<^item> \<open>json_Decode\<close>: \<^verbatim>\<open>json.Decoder.Decode\<close> into the \<^verbatim>\<open>MapClaims\<close> of the token;
  \<^item> \<open>Verify\<close>: \<^verbatim>\<open>SigningMethod.Verify(signingString, signature, key)\<close> of the method named
    by its first argument;
  \<^item> \<open>unicode_ToLower\<close>: \<^verbatim>\<open>strings.ToLower\<close> on a string that holds a byte outside ASCII.
\<close>

record env =
  base64_DecodeString :: "string \<Rightarrow> error + string"
  http_Get :: "string \<Rightarrow> error + string"
  json_Decode_keys :: "string \<Rightarrow> error + PublicKey list"
  DecodeSegment :: "string \<Rightarrow> error + string"
  json_Unmarshal :: "string \<Rightarrow> error + (string \<rightharpoonup> json)"
  json_Decode :: "string \<Rightarrow> error + MapClaims"
  Verify :: "string \<Rightarrow> string \<Rightarrow> string \<Rightarrow> rsa_PublicKey option \<Rightarrow> error option outcome"
  unicode_ToLower :: "string \<Rightarrow> string"

section \<open>Key material: parsePEM and SetPEM\<close>

text \<open>\<^verbatim>\<open>new(big.Int).SetBytes(n)\<close>: the bytes read as a big-endian unsigned integer.\<close>

definition SetBytes :: "string \<Rightarrow> nat" where
  "SetBytes bs = foldl (\<lambda>a b. a * 256 + of_char b) 0 bs"

text \<open>\<^verbatim>\<open>func parsePEM(k PublicKey) (*rsa.PublicKey, error)\<close>\<close>

definition parsePEM :: "env \<Rightarrow> PublicKey \<Rightarrow> error + rsa_PublicKey" where
  "parsePEM env k =
     (if Kty k \<noteq> ''RSA'' then Inl (ErrorString (''KTY '' @ Kty k @ '' must be RSA''))
      else case base64_DecodeString env (N k) of
        Inl err \<Rightarrow> Inl err
      | Inr n \<Rightarrow>
          if E k = ''AQAB'' \<or> E k = ''AAEAAQ''
          then Inr \<lparr>rsa_N = SetBytes n, rsa_E = 65537\<rparr>
          else Inl (ErrorString (''E '' @ E k @ '' is invalid'')))"

text \<open>
  \<^verbatim>\<open>func (k *PublicKey) SetPEM() error\<close>: the receiver is updated in place; the model
  returns the updated record.
\<close>

definition SetPEM :: "env \<Rightarrow> PublicKey \<Rightarrow> error + PublicKey" where
  "SetPEM env k =
     (if Kty k \<noteq> ''RSA'' then Inl (ErrorString (''KTY '' @ Kty k @ '' must be RSA''))
      else case base64_DecodeString env (N k) of
        Inl err \<Rightarrow> Inl err
      | Inr n \<Rightarrow>
          if E k = ''AQAB'' \<or> E k = ''AAEAAQ''
          then Inr (k\<lparr>PEM := Some \<lparr>rsa_N = SetBytes n, rsa_E = 65537\<rparr>\<rparr>)
          else Inl (ErrorString (''E '' @ E k @ '' is invalid'')))"

section \<open>Key-set resolution: getPublicKeys\<close>

text \<open>
  The loop of \<^verbatim>\<open>getPublicKeys\<close> over \<^verbatim>\<open>respJson.Keys\<close> (first listing): the first key that
  \<^verbatim>\<open>parsePEM\<close> rejects ends the function with that error.
\<close>

fun keys_loop :: "env \<Rightarrow> PublicKey list \<Rightarrow> PublicKeys \<Rightarrow> error + PublicKeys" where
  "keys_loop env [] publicKeys = Inr publicKeys"
| "keys_loop env (key # rest) publicKeys =
     (case parsePEM env key of
        Inl err \<Rightarrow> Inl err
      | Inr pem \<Rightarrow> keys_loop env rest (publicKeys(Kid key \<mapsto> key\<lparr>PEM := Some pem\<rparr>)))"

text \<open>The same loop in the second listing, through \<^verbatim>\<open>key.SetPEM()\<close>.\<close>

fun keys_loop2 :: "env \<Rightarrow> PublicKey list \<Rightarrow> PublicKeys \<Rightarrow> error + PublicKeys" where
  "keys_loop2 env [] publicKeys = Inr publicKeys"
| "keys_loop2 env (key # rest) publicKeys =
     (case SetPEM env key of
        Inl err \<Rightarrow> Inl err
      | Inr key' \<Rightarrow> keys_loop2 env rest (publicKeys(Kid key' \<mapsto> key')))"

text \<open>
  \<^verbatim>\<open>func getPublicKeys(iss string) (PublicKeys, error)\<close>. The second component of the
  result is the list of URLs requested over the network, in order.
\<close>

definition getPublicKeys :: "env \<Rightarrow> string \<Rightarrow> (error + PublicKeys) \<times> string list" where
  "getPublicKeys env iss =
     ((case http_Get env iss of
         Inl err \<Rightarrow> Inl err
       | Inr body \<Rightarrow>
           (case json_Decode_keys env body of
              Inl err \<Rightarrow> Inl err
            | Inr keys \<Rightarrow> keys_loop env keys Map.empty)),
      [iss])"

definition getPublicKeys2 :: "env \<Rightarrow> string \<Rightarrow> (error + PublicKeys) \<times> string list" where
  "getPublicKeys2 env iss =
     ((case http_Get env iss of
         Inl err \<Rightarrow> Inl err
       | Inr body \<Rightarrow>
           (case json_Decode_keys env body of
              Inl err \<Rightarrow> Inl err
            | Inr keys \<Rightarrow> keys_loop2 env keys Map.empty)),
      [iss])"

section \<open>Construction: NewCognitoClient and NewCognito\<close>

text \<open>
  \<^verbatim>\<open>func NewCognitoClient(region, usePoolId, clientId string) (Client, error)\<close> (first
  listing). As for \<open>getPublicKeys\<close>, the second component lists the URLs requested.
\<close>

definition NewCognitoClient :: "env \<Rightarrow> string \<Rightarrow> string \<Rightarrow> string \<Rightarrow> (error + Cognito) \<times> string list" where
  "NewCognitoClient env region usePoolId clientId =
     (if region = '''' \<or> usePoolId = ''''
      then (Inl (WrapError ''invalid region or use pool id: invalid param'' ErrInvalidParam), [])
      else
        let iss = ''https://cognito-idp.'' @ region @ ''.amazonaws.com/'' @ usePoolId;
            pkUrl = iss @ ''/.well-known/jwks.json''
        in case getPublicKeys env pkUrl of
             (Inl err, reqs) \<Rightarrow> (Inl err, reqs)
           | (Inr publicKeys, reqs) \<Rightarrow>
               (Inr \<lparr>ClientId = clientId, Iss = iss, PublicKeys = publicKeys\<rparr>, reqs))"

text \<open>\<^verbatim>\<open>func NewCognito(region, usePoolId, clientId string) (*Cognito, error)\<close> (second listing).\<close>

definition NewCognito :: "env \<Rightarrow> string \<Rightarrow> string \<Rightarrow> string \<Rightarrow> (error + Cognito) \<times> string list" where
  "NewCognito env region usePoolId clientId =
     (if region = '''' \<or> usePoolId = ''''
      then (Inl (WrapError ''invalid region or use pool id: invalid param'' ErrInvalidParam), [])
      else
        let iss = ''https://cognito-idp.'' @ region @ ''.amazonaws.com/'' @ usePoolId
                    @ ''/.well-known/jwks.json''
        in case getPublicKeys2 env iss of
             (Inl err, reqs) \<Rightarrow> (Inl err, reqs)
           | (Inr publicKeys, reqs) \<Rightarrow>
               (Inr \<lparr>ClientId = clientId, Iss = iss, PublicKeys = publicKeys\<rparr>, reqs))"

section \<open>The claim checks of package jwt-go\<close>

text \<open>
  The functions of this section and the next belong to the imported package
  \<^verbatim>\<open>github.com/dgrijalva/jwt-go\<close> (v3.2.0), which \<^verbatim>\<open>VerifyToken\<close> calls: \<^verbatim>\<open>claims.go\<close>,
  \<^verbatim>\<open>map_claims.go\<close>, \<^verbatim>\<open>errors.go\<close> and \<^verbatim>\<open>parser.go\<close>.

  The bits of \<^verbatim>\<open>ValidationError.Errors\<close>.
\<close>

definition ValidationErrorMalformed :: "32 word" where
  "ValidationErrorMalformed = 1"

definition ValidationErrorUnverifiable :: "32 word" where
  "ValidationErrorUnverifiable = 2"

definition ValidationErrorSignatureInvalid :: "32 word" where
  "ValidationErrorSignatureInvalid = 4"

definition ValidationErrorExpired :: "32 word" where
  "ValidationErrorExpired = 16"

definition ValidationErrorIssuedAt :: "32 word" where
  "ValidationErrorIssuedAt = 32"

definition ValidationErrorNotValidYet :: "32 word" where
  "ValidationErrorNotValidYet = 128"

definition ValidationErrorClaimsInvalid :: "32 word" where
  "ValidationErrorClaimsInvalid = 512"

definition NewValidationError :: "string \<Rightarrow> 32 word \<Rightarrow> error" where
  "NewValidationError errorText errorFlags = ValidationError None errorFlags errorText"

text \<open>
  The conversion \<^verbatim>\<open>int64(f)\<close> of a float64: the fraction is dropped. Go leaves the result
  open when the value does not fit int64; the smallest int64 stands for it here (what
  amd64 yields).
\<close>

definition int64_of_float64 :: "rat \<Rightarrow> int" where
  "int64_of_float64 f =
     (let t = (if f < 0 then \<lceil>f\<rceil> else \<lfloor>f\<rfloor>)
      in if - (2 ^ 63) \<le> t \<and> t < 2 ^ 63 then t else - (2 ^ 63))"

text \<open>
  \<^verbatim>\<open>subtle.ConstantTimeCompare(x, y) != 0\<close> holds exactly when the two byte strings are
  equal, so the comparisons below are equalities.
\<close>

definition verifyAud :: "string \<Rightarrow> string \<Rightarrow> bool \<Rightarrow> bool" where
  "verifyAud aud cmp required = (if aud = '''' then \<not> required else aud = cmp)"

definition verifyExp :: "int \<Rightarrow> int \<Rightarrow> bool \<Rightarrow> bool" where
  "verifyExp exp' now required = (if exp' = 0 then \<not> required else now \<le> exp')"

definition verifyIat :: "int \<Rightarrow> int \<Rightarrow> bool \<Rightarrow> bool" where
  "verifyIat iat now required = (if iat = 0 then \<not> required else now \<ge> iat)"

definition verifyIss :: "string \<Rightarrow> string \<Rightarrow> bool \<Rightarrow> bool" where
  "verifyIss iss cmp required = (if iss = '''' then \<not> required else iss = cmp)"

definition verifyNbf :: "int \<Rightarrow> int \<Rightarrow> bool \<Rightarrow> bool" where
  "verifyNbf nbf now required = (if nbf = 0 then \<not> required else now \<ge> nbf)"

text \<open>
  \<^verbatim>\<open>aud, _ := m["aud"].(string)\<close>: the zero value \<^verbatim>\<open>""\<close> when the claim is absent or not a
  string.
\<close>

definition VerifyAudience :: "MapClaims \<Rightarrow> string \<Rightarrow> bool \<Rightarrow> bool" where
  "VerifyAudience m cmp req =
     (let aud = (case m ''aud'' of Some (JString s) \<Rightarrow> s | _ \<Rightarrow> '''')
      in verifyAud aud cmp req)"

text \<open>
  The type switch on \<^verbatim>\<open>m["exp"]\<close>; the \<^verbatim>\<open>json.Number\<close> case cannot occur, since
  \<^verbatim>\<open>jwt.Parse\<close> decodes numbers as float64.
\<close>

definition VerifyExpiresAt :: "MapClaims \<Rightarrow> int \<Rightarrow> bool \<Rightarrow> bool" where
  "VerifyExpiresAt m cmp req =
     (case m ''exp'' of
        Some (JNumber exp') \<Rightarrow> verifyExp (int64_of_float64 exp') cmp req
      | _ \<Rightarrow> req = False)"

definition VerifyIssuedAt :: "MapClaims \<Rightarrow> int \<Rightarrow> bool \<Rightarrow> bool" where
  "VerifyIssuedAt m cmp req =
     (case m ''iat'' of
        Some (JNumber iat) \<Rightarrow> verifyIat (int64_of_float64 iat) cmp req
      | _ \<Rightarrow> req = False)"

definition VerifyIssuer :: "MapClaims \<Rightarrow> string \<Rightarrow> bool \<Rightarrow> bool" where
  "VerifyIssuer m cmp req =
     (let iss = (case m ''iss'' of Some (JString s) \<Rightarrow> s | _ \<Rightarrow> '''')
      in verifyIss iss cmp req)"

definition VerifyNotBefore :: "MapClaims \<Rightarrow> int \<Rightarrow> bool \<Rightarrow> bool" where
  "VerifyNotBefore m cmp req =
     (case m ''nbf'' of
        Some (JNumber nbf) \<Rightarrow> verifyNbf (int64_of_float64 nbf) cmp req
      | _ \<Rightarrow> req = False)"

text \<open>
  \<^verbatim>\<open>func (m MapClaims) Valid() error\<close>; \<open>now\<close> is the value of \<^verbatim>\<open>TimeFunc().Unix()\<close> read
  there. The pairs are the fields \<^verbatim>\<open>Inner\<close> and \<^verbatim>\<open>Errors\<close> of \<^verbatim>\<open>vErr\<close>.
\<close>

definition MapClaims_Valid :: "int \<Rightarrow> MapClaims \<Rightarrow> error option" where
  "MapClaims_Valid now m =
     (let v0 = (None, 0);
          v1 = (if VerifyExpiresAt m now False = False
                then (Some (ErrorString ''Token is expired''), snd v0 OR ValidationErrorExpired)
                else v0);
          v2 = (if VerifyIssuedAt m now False = False
                then (Some (ErrorString ''Token used before issued''), snd v1 OR ValidationErrorIssuedAt)
                else v1);
          v3 = (if VerifyNotBefore m now False = False
                then (Some (ErrorString ''Token is not valid yet''), snd v2 OR ValidationErrorNotValidYet)
                else v2)
      in if snd v3 = 0 then None else Some (ValidationError (fst v3) (snd v3) ''''))"

section \<open>Parsing in package jwt-go\<close>

text \<open>\<^verbatim>\<open>strings.Split(s, sep)\<close> for a separator of one byte.\<close>

fun Split :: "string \<Rightarrow> char \<Rightarrow> string list" where
  "Split [] sep = [[]]"
| "Split (c # cs) sep =
     (if c = sep then [] # Split cs sep
      else case Split cs sep of
             [] \<Rightarrow> [[c]]
           | p # ps \<Rightarrow> (c # p) # ps)"

text \<open>The lower case of an ASCII byte, and \<^verbatim>\<open>strings.ToLower\<close> with its ASCII fast path.\<close>

definition asciiLower :: "char \<Rightarrow> char" where
  "asciiLower c =
     (if (65::nat) \<le> of_char c \<and> of_char c \<le> (90::nat)
      then char_of (of_char c + (32::nat)) else c)"

definition ToLower :: "env \<Rightarrow> string \<Rightarrow> string" where
  "ToLower env s =
     (if list_all (\<lambda>c. of_char c < (128::nat)) s then map asciiLower s
      else unicode_ToLower env s)"

definition HasPrefix :: "string \<Rightarrow> string \<Rightarrow> bool" where
  "HasPrefix s prefix = (length s \<ge> length prefix \<and> take (length prefix) s = prefix)"

text \<open>The names registered with \<^verbatim>\<open>RegisterSigningMethod\<close>, which \<^verbatim>\<open>GetSigningMethod\<close> finds.\<close>

definition signingMethods :: "string list" where
  "signingMethods =
     [''ES256'', ''ES384'', ''ES512'', ''HS256'', ''HS384'', ''HS512'', ''none'',
      ''RS256'', ''RS384'', ''RS512'', ''PS256'', ''PS384'', ''PS512'']"

text \<open>
  \<^verbatim>\<open>func (p *Parser) ParseUnverified(tokenString string, claims Claims)\<close> with
  \<^verbatim>\<open>MapClaims{}\<close> for the claims. \<open>Inl\<close> is a return with an error (and the token as far as
  it was built); \<open>Inr\<close> is the token with its three segments.
\<close>

definition ParseUnverified :: "env \<Rightarrow> string \<Rightarrow> (Token option \<times> error) + (Token \<times> string list)" where
  "ParseUnverified env tokenString =
     (let parts = Split tokenString CHR ''.''
      in if length parts \<noteq> 3
         then Inl (None, NewValidationError ''token contains an invalid number of segments''
                           ValidationErrorMalformed)
         else
           let token = \<lparr>Raw = tokenString, Method = None, Header = Map.empty,
                         Claims = Map.empty, Signature = '''', Valid = False\<rparr>
           in case DecodeSegment env (parts ! 0) of
                Inl err \<Rightarrow>
                  if HasPrefix (ToLower env tokenString) ''bearer ''
                  then Inl (Some token, NewValidationError
                              (''tokenstring should not contain '' @ [CHR 0x27] @ ''bearer '' @ [CHR 0x27])
                              ValidationErrorMalformed)
                  else Inl (Some token, ValidationError (Some err) ValidationErrorMalformed '''')
              | Inr headerBytes \<Rightarrow>
                  (case json_Unmarshal env headerBytes of
                     Inl err \<Rightarrow>
                       Inl (Some token, ValidationError (Some err) ValidationErrorMalformed '''')
                   | Inr header \<Rightarrow>
                       let token = token\<lparr>Header := header\<rparr>
                       in case DecodeSegment env (parts ! 1) of
                            Inl err \<Rightarrow>
                              Inl (Some token, ValidationError (Some err) ValidationErrorMalformed '''')
                          | Inr claimBytes \<Rightarrow>
                              (case json_Decode env claimBytes of
                                 Inl err \<Rightarrow>
                                   Inl (Some token,
                                        ValidationError (Some err) ValidationErrorMalformed '''')
                               | Inr c \<Rightarrow>
                                   let token = token\<lparr>Claims := c\<rparr>
                                   in case Header token ''alg'' of
                                        Some (JString method) \<Rightarrow>
                                          if method \<in> set signingMethods
                                          then Inr (token\<lparr>Method := Some method\<rparr>, parts)
                                          else Inl (Some token, NewValidationError
                                                      ''signing method (alg) is unavailable.''
                                                      ValidationErrorUnverifiable)
                                      | _ \<Rightarrow>
                                          Inl (Some token, NewValidationError
                                                 ''signing method (alg) is unspecified.''
                                                 ValidationErrorUnverifiable))))"

text \<open>
  \<^verbatim>\<open>func Parse(tokenString string, keyFunc Keyfunc) (*Token, error)\<close>, that is
  \<^verbatim>\<open>new(Parser).ParseWithClaims(tokenString, MapClaims{}, keyFunc)\<close>. \<open>now\<close> is the clock
  value read by \<^verbatim>\<open>token.Claims.Valid()\<close>.
\<close>

definition Parse ::
  "env \<Rightarrow> int \<Rightarrow> string \<Rightarrow> (Token \<Rightarrow> (rsa_PublicKey option \<times> error option) outcome)
     \<Rightarrow> (Token option \<times> error option) outcome" where
  "Parse env now tokenString keyFunc =
     (case ParseUnverified env tokenString of
        Inl (token, err) \<Rightarrow> Returns (token, Some err)
      | Inr (token, parts) \<Rightarrow>
          (case keyFunc token of
             Panics p \<Rightarrow> Panics p
           | Returns (key, Some err) \<Rightarrow>
               (case err of
                  ValidationError i f t \<Rightarrow> Returns (Some token, Some err)
                | _ \<Rightarrow> Returns (Some token,
                                 Some (ValidationError (Some err) ValidationErrorUnverifiable '''')))
           | Returns (key, None) \<Rightarrow>
               let vErr = (case MapClaims_Valid now (Claims token) of
                             None \<Rightarrow> (None, 0, '''')
                           | Some (ValidationError i f t) \<Rightarrow> (i, f, t)
                           | Some err \<Rightarrow> (Some err, ValidationErrorClaimsInvalid, ''''));
                   token = token\<lparr>Signature := parts ! 2\<rparr>
               in case (case Method token of
                          None \<Rightarrow> Panics ''invalid memory address or nil pointer dereference''
                        | Some method \<Rightarrow>
                            Verify env method (parts ! 0 @ ''.'' @ parts ! 1) (Signature token) key) of
                    Panics p \<Rightarrow> Panics p
                  | Returns r \<Rightarrow>
                      let vErr = (case r of
                                    Some err \<Rightarrow>
                                      (Some err,
                                       fst (snd vErr) OR ValidationErrorSignatureInvalid,
                                       snd (snd vErr))
                                  | None \<Rightarrow> vErr)
                      in if fst (snd vErr) = 0
                         then Returns (Some (token\<lparr>Valid := True\<rparr>), None)
                         else Returns (Some token,
                                       Some (ValidationError (fst vErr) (fst (snd vErr))
                                               (snd (snd vErr))))))"

section \<open>Token verification: getCert and VerifyToken\<close>

text \<open>
  The dynamic type of an \<^verbatim>\<open>interface{}\<close> value as a failed type assertion prints it; a
  missing map entry is the nil interface, like JSON \<^verbatim>\<open>null\<close>.
\<close>

fun typeName :: "json option \<Rightarrow> string" where
  "typeName None = ''nil''"
| "typeName (Some JNull) = ''nil''"
| "typeName (Some (JBool b)) = ''bool''"
| "typeName (Some (JNumber x)) = ''float64''"
| "typeName (Some (JString s)) = ''string''"
| "typeName (Some (JArray xs)) = ''[]interface {}''"
| "typeName (Some (JObject kvs)) = ''map[string]interface {}''"

text \<open>
  \<^verbatim>\<open>func (c *Cognito) getCert(token *jwt.Token) (*rsa.PublicKey, error)\<close> of the first
  listing. The assertion \<^verbatim>\<open>token.Header["kid"].(string)\<close> has no \<^verbatim>\<open>ok\<close> result, so it
  panics on anything but a string.
\<close>

definition getCert :: "Cognito \<Rightarrow> Token \<Rightarrow> (rsa_PublicKey option \<times> error option) outcome" where
  "getCert c token =
     (case Header token ''kid'' of
        Some (JString kid) \<Rightarrow>
          (case PublicKeys c kid of
             None \<Rightarrow> Returns (None, Some (ErrorString (''invalid kid '' @ kid)))
           | Some key \<Rightarrow> Returns (PEM key, None))
      | v \<Rightarrow> Panics (''interface conversion: interface {} is '' @ typeName v @ '', not string''))"

text \<open>The function literal that \<^verbatim>\<open>VerifyToken\<close> of the first listing hands to \<^verbatim>\<open>jwt.Parse\<close>.\<close>

definition keyFunc :: "Cognito \<Rightarrow> Token \<Rightarrow> (rsa_PublicKey option \<times> error option) outcome" where
  "keyFunc c token =
     (case Method token of
        None \<Rightarrow> Panics ''invalid memory address or nil pointer dereference''
      | Some alg \<Rightarrow>
          if alg \<noteq> ''RS256''
          then Returns (None, Some (ErrorString (''invalid signing method '' @ alg
                                      @ ''. signing method must be RS256'')))
          else getCert c token)"

text \<open>
  \<^verbatim>\<open>func (c *Cognito) VerifyToken(tokenStr string) (*jwt.Token, error)\<close> of the first
  listing. \<open>parseNow\<close> is the clock value read inside \<^verbatim>\<open>jwt.Parse\<close> and \<open>now\<close> the value of
  \<^verbatim>\<open>time.Now().Unix()\<close> in the expiry check.
\<close>

definition VerifyToken ::
  "env \<Rightarrow> Cognito \<Rightarrow> int \<Rightarrow> int \<Rightarrow> string \<Rightarrow> (Token option \<times> error option) outcome" where
  "VerifyToken env c parseNow now tokenStr =
     (case Parse env parseNow tokenStr (keyFunc c) of
        Panics p \<Rightarrow> Panics p
      | Returns (token, Some err) \<Rightarrow> Returns (None, Some err)
      | Returns (None, None) \<Rightarrow> Panics ''invalid memory address or nil pointer dereference''
      | Returns (Some token, None) \<Rightarrow>
          if \<not> VerifyAudience (Claims token) (ClientId c) False
          then Returns (Some token, Some (ErrorString ''audience is invalid''))
          else if \<not> VerifyExpiresAt (Claims token) now True
          then Returns (Some token, Some (ErrorString ''token expired''))
          else if \<not> VerifyIssuer (Claims token) (Iss c) True
          then Returns (Some token, Some (ErrorString ''iss is invalid''))
          else Returns (Some token, None))"

text \<open>\<^verbatim>\<open>getCert\<close> of the second listing, which checks the signing method itself.\<close>

definition getCert2 :: "Cognito \<Rightarrow> Token \<Rightarrow> (rsa_PublicKey option \<times> error option) outcome" where
  "getCert2 c token =
     (case Method token of
        None \<Rightarrow> Panics ''invalid memory address or nil pointer dereference''
      | Some alg \<Rightarrow>
          if alg \<noteq> ''RS256''
          then Returns (None, Some (ErrorString (''invalid signing method '' @ alg
                                      @ ''. signing method must be RS256'')))
          else
            (case Header token ''kid'' of
               Some (JString kid) \<Rightarrow>
                 (case PublicKeys c kid of
                    None \<Rightarrow> Returns (None, Some (ErrorString (''invalid kid '' @ kid)))
                  | Some key \<Rightarrow> Returns (PEM key, None))
             | v \<Rightarrow> Panics (''interface conversion: interface {} is '' @ typeName v
                             @ '', not string'')))"

text \<open>\<^verbatim>\<open>VerifyToken\<close> of the second listing.\<close>

definition VerifyToken2 ::
  "env \<Rightarrow> Cognito \<Rightarrow> int \<Rightarrow> int \<Rightarrow> string \<Rightarrow> (Token option \<times> error option) outcome" where
  "VerifyToken2 env c parseNow now tokenStr =
     (case Parse env parseNow tokenStr (getCert2 c) of
        Panics p \<Rightarrow> Panics p
      | Returns (token, Some err) \<Rightarrow> Returns (None, Some err)
      | Returns (None, None) \<Rightarrow> Panics ''invalid memory address or nil pointer dereference''
      | Returns (Some token, None) \<Rightarrow>
          if \<not> VerifyAudience (Claims token) (ClientId c) False
          then Returns (Some token, Some (ErrorString ''audience is invalid''))
          else if \<not> VerifyExpiresAt (Claims token) now True
          then Returns (Some token, Some (ErrorString ''token expired''))
          else if \<not> VerifyIssuer (Claims token) (Iss c) True
          then Returns (Some token, Some (ErrorString ''iss is invalid''))
          else Returns (Some token, None))"

section \<open>Bearer extraction: tokenFromAuthHeader\<close>







section \<open>Tokens whose segments decode\<close>

text \<open>
  The header and the claim set of a token string that has three segments whose first two
  decode as base64url and as JSON objects: the part of \<open>ParseUnverified\<close> before the
  signing method is looked up.
\<close>

definition decoded :: "env \<Rightarrow> string \<Rightarrow> ((string \<rightharpoonup> json) \<times> MapClaims) option" where
  "decoded env tokenString =
     (case Split tokenString CHR ''.'' of
        [h, p, s] \<Rightarrow>
          (case DecodeSegment env h of
             Inl err \<Rightarrow> None
           | Inr headerBytes \<Rightarrow>
               (case json_Unmarshal env headerBytes of
                  Inl err \<Rightarrow> None
                | Inr header \<Rightarrow>
                    (case DecodeSegment env p of
                       Inl err \<Rightarrow> None
                     | Inr claimBytes \<Rightarrow>
                         (case json_Decode env claimBytes of
                            Inl err \<Rightarrow> None
                          | Inr claims \<Rightarrow> Some (header, claims)))))
      | _ \<Rightarrow> None)"

section \<open>Malformed JWKS entries\<close>

text \<open>
  A JWKS entry is malformed when its key type is not RSA, its modulus does not decode, or
  its exponent is not one of the two canonical encodings.
\<close>

definition malformed_entry :: "env \<Rightarrow> PublicKey \<Rightarrow> bool" where
  "malformed_entry env k =
     (Kty k \<noteq> ''RSA'' \<or> isl (base64_DecodeString env (N k))
      \<or> (E k \<noteq> ''AQAB'' \<and> E k \<noteq> ''AAEAAQ''))"

section \<open>A concrete environment and concrete tokens\<close>

text \<open>
  The scenarios use one RSA key \<open>k1\<close>, the audience \<open>app1\<close> and the issuer
  \<open>https://issuer/pool\<close>. Three token headers and six claim sets follow, each with the JSON
  text it is decoded from and the base64url segment that carries that text.
\<close>

definition demo_key :: PublicKey where
  "demo_key = \<lparr>Alg = ''RS256'', E = ''AQAB'', Kid = ''k1'', Kty = ''RSA'', N = ''AQ'',
                Use = ''sig'', PEM = None\<rparr>"

definition demo_pem :: rsa_PublicKey where
  "demo_pem = \<lparr>rsa_N = 1, rsa_E = 65537\<rparr>"

definition header_rs256 :: "string \<rightharpoonup> json" where
  "header_rs256 = [''alg'' \<mapsto> JString ''RS256'', ''kid'' \<mapsto> JString ''k1'']"

definition header_hs256 :: "string \<rightharpoonup> json" where
  "header_hs256 = [''alg'' \<mapsto> JString ''HS256'', ''kid'' \<mapsto> JString ''k1'']"

definition header_nokid :: "string \<rightharpoonup> json" where
  "header_nokid = [''alg'' \<mapsto> JString ''RS256'']"

definition claims_ok :: MapClaims where
  "claims_ok = [''aud'' \<mapsto> JString ''app1'', ''exp'' \<mapsto> JNumber 5000,
                ''iss'' \<mapsto> JString ''https://issuer/pool'']"

definition claims_past :: MapClaims where
  "claims_past = [''aud'' \<mapsto> JString ''app1'', ''exp'' \<mapsto> JNumber 1000,
                  ''iss'' \<mapsto> JString ''https://issuer/pool'']"

definition claims_noaud :: MapClaims where
  "claims_noaud = [''exp'' \<mapsto> JNumber 5000, ''iss'' \<mapsto> JString ''https://issuer/pool'']"

definition claims_now :: MapClaims where
  "claims_now = [''aud'' \<mapsto> JString ''app1'', ''exp'' \<mapsto> JNumber 2000,
                 ''iss'' \<mapsto> JString ''https://issuer/pool'']"

definition claims_noexp :: MapClaims where
  "claims_noexp = [''aud'' \<mapsto> JString ''app1'', ''iss'' \<mapsto> JString ''https://issuer/pool'']"

definition claims_case :: MapClaims where
  "claims_case = [''aud'' \<mapsto> JString ''App1'', ''exp'' \<mapsto> JNumber 5000,
                  ''iss'' \<mapsto> JString ''https://issuer/pool'']"

definition seg_header_rs256 :: string where
  "seg_header_rs256 = ''eyJhbGciOiJSUzI1NiIsImtpZCI6ImsxIn0''"

definition seg_header_hs256 :: string where
  "seg_header_hs256 = ''eyJhbGciOiJIUzI1NiIsImtpZCI6ImsxIn0''"

definition seg_header_nokid :: string where
  "seg_header_nokid = ''eyJhbGciOiJSUzI1NiJ9''"

definition seg_claims_ok :: string where
  "seg_claims_ok = ''eyJhdWQiOiJhcHAxIiwiZXhwIjo1MDAwLCJpc3MiOiJodHRwczovL2lzc3Vlci9wb29sIn0''"

definition seg_claims_past :: string where
  "seg_claims_past = ''eyJhdWQiOiJhcHAxIiwiZXhwIjoxMDAwLCJpc3MiOiJodHRwczovL2lzc3Vlci9wb29sIn0''"

definition seg_claims_noaud :: string where
  "seg_claims_noaud = ''eyJleHAiOjUwMDAsImlzcyI6Imh0dHBzOi8vaXNzdWVyL3Bvb2wifQ''"

definition seg_claims_now :: string where
  "seg_claims_now = ''eyJhdWQiOiJhcHAxIiwiZXhwIjoyMDAwLCJpc3MiOiJodHRwczovL2lzc3Vlci9wb29sIn0''"

definition seg_claims_noexp :: string where
  "seg_claims_noexp = ''eyJhdWQiOiJhcHAxIiwiaXNzIjoiaHR0cHM6Ly9pc3N1ZXIvcG9vbCJ9''"

definition seg_claims_case :: string where
  "seg_claims_case = ''eyJhdWQiOiJBcHAxIiwiZXhwIjo1MDAwLCJpc3MiOiJodHRwczovL2lzc3Vlci9wb29sIn0''"

text \<open>
  The library primitives restricted to these inputs, on which they agree with the real
  codecs. A signature is accepted exactly when it is the segment \<open>c2ln\<close> under method
  RS256 with a key present.
\<close>

definition demo_DecodeSegment :: "string \<Rightarrow> error + string" where
  \<open>demo_DecodeSegment s =
     (if s = seg_header_rs256 then Inr ''{"alg":"RS256","kid":"k1"}''
      else if s = seg_header_hs256 then Inr ''{"alg":"HS256","kid":"k1"}''
      else if s = seg_header_nokid then Inr ''{"alg":"RS256"}''
      else if s = seg_claims_ok
      then Inr ''{"aud":"app1","exp":5000,"iss":"https://issuer/pool"}''
      else if s = seg_claims_past
      then Inr ''{"aud":"app1","exp":1000,"iss":"https://issuer/pool"}''
      else if s = seg_claims_noaud
      then Inr ''{"exp":5000,"iss":"https://issuer/pool"}''
      else if s = seg_claims_now
      then Inr ''{"aud":"app1","exp":2000,"iss":"https://issuer/pool"}''
      else if s = seg_claims_noexp
      then Inr ''{"aud":"app1","iss":"https://issuer/pool"}''
      else if s = seg_claims_case
      then Inr ''{"aud":"App1","exp":5000,"iss":"https://issuer/pool"}''
      else Inl (CorruptInputError 0))\<close>

definition demo_json :: "string \<Rightarrow> error + (string \<rightharpoonup> json)" where
  \<open>demo_json s =
     (if s = ''{"alg":"RS256","kid":"k1"}'' then Inr header_rs256
      else if s = ''{"alg":"HS256","kid":"k1"}'' then Inr header_hs256
      else if s = ''{"alg":"RS256"}'' then Inr header_nokid
      else if s = ''{"aud":"app1","exp":5000,"iss":"https://issuer/pool"}''
      then Inr claims_ok
      else if s = ''{"aud":"app1","exp":1000,"iss":"https://issuer/pool"}''
      then Inr claims_past
      else if s = ''{"exp":5000,"iss":"https://issuer/pool"}''
      then Inr claims_noaud
      else if s = ''{"aud":"app1","exp":2000,"iss":"https://issuer/pool"}''
      then Inr claims_now
      else if s = ''{"aud":"app1","iss":"https://issuer/pool"}''
      then Inr claims_noexp
      else if s = ''{"aud":"App1","exp":5000,"iss":"https://issuer/pool"}''
      then Inr claims_case
      else Inl (ErrorString ''unexpected end of JSON input''))\<close>

definition demo_env :: env where
  "demo_env =
     \<lparr>base64_DecodeString =
        (\<lambda>s. if s = ''AQ'' then Inr [CHR 0x01] else Inl (CorruptInputError 0)),
      http_Get = (\<lambda>url. Inr ''jwks''),
      json_Decode_keys = (\<lambda>body. Inr [demo_key]),
      DecodeSegment = demo_DecodeSegment,
      json_Unmarshal = demo_json,
      json_Decode = demo_json,
      Verify = (\<lambda>method signingString signature key.
                  Returns (if method = ''RS256'' \<and> signature = ''c2ln'' \<and> key \<noteq> None
                           then None
                           else Some (ErrorString ''crypto/rsa: verification error''))),
      unicode_ToLower = (\<lambda>s. s)\<rparr>"

definition demo_cognito :: Cognito where
  "demo_cognito =
     \<lparr>ClientId = ''app1'', Iss = ''https://issuer/pool'',
      PublicKeys = [''k1'' \<mapsto> demo_key\<lparr>PEM := Some demo_pem\<rparr>]\<rparr>"

text \<open>The compact token of a header segment and a claims segment, with the signature \<open>c2ln\<close>.\<close>

definition compact_token :: "string \<Rightarrow> string \<Rightarrow> string" where
  "compact_token h p = h @ ''.'' @ p @ ''.c2ln''"

text \<open>The token that \<^verbatim>\<open>jwt.Parse\<close> returns for such a string when it accepts it.\<close>

definition demo_token :: "string \<Rightarrow> (string \<rightharpoonup> json) \<Rightarrow> MapClaims \<Rightarrow> Token" where
  "demo_token raw header claims =
     \<lparr>Raw = raw, Method = Some ''RS256'', Header = header, Claims = claims,
      Signature = ''c2ln'', Valid = True\<rparr>"

text \<open>A JWKS document of three keys whose second entry has key type EC.\<close>

definition demo_env_three_keys :: env where
  "demo_env_three_keys =
     demo_env\<lparr>json_Decode_keys :=
       (\<lambda>body. Inr [demo_key, demo_key\<lparr>Kid := ''k2'', Kty := ''EC''\<rparr>, demo_key\<lparr>Kid := ''k3''\<rparr>])\<rparr>"

section \<open>Key material and key-set resolution: properties\<close>

lemma SetPEM_parsePEM:
  "SetPEM env k = (case parsePEM env k of Inl err \<Rightarrow> Inl err | Inr pem \<Rightarrow> Inr (k\<lparr>PEM := Some pem\<rparr>))"
  by (simp add: SetPEM_def parsePEM_def split: sum.splits)

lemma parsePEM_fails_iff:
  "(\<exists>err. parsePEM env k = Inl err) \<longleftrightarrow> malformed_entry env k"
  by (auto simp: parsePEM_def malformed_entry_def isl_def split: sum.splits)

lemma keys_loop2_eq: "keys_loop2 env keys m = keys_loop env keys m"
  by (induction keys arbitrary: m) (auto simp: SetPEM_parsePEM split: sum.splits)

lemma getPublicKeys2_eq: "getPublicKeys2 env url = getPublicKeys env url"
  by (simp add: getPublicKeys2_def getPublicKeys_def keys_loop2_eq split: sum.splits)

lemma keys_loop_first_failure:
  "\<forall>k\<in>set good. \<not> malformed_entry env k \<Longrightarrow> parsePEM env bad = Inl err
     \<Longrightarrow> keys_loop env (good @ bad # rest) m = Inl err"
proof (induction good arbitrary: m)
  case Nil
  then show ?case by simp
next
  case (Cons k good)
  from Cons.prems(1) have "\<not> malformed_entry env k" by simp
  then obtain pem where "parsePEM env k = Inr pem"
    using parsePEM_fails_iff [of env k] by (cases "parsePEM env k") auto
  with Cons show ?case by simp
qed

text \<open>
  Claim C6. For every JWK record, \<open>parsePEM\<close> and \<open>SetPEM\<close> succeed only when the exponent
  field is the literal string \<open>AQAB\<close> or the literal string \<open>AAEAAQ\<close>, and the public key
  they build then has exponent 65537. Any other exponent string makes both fail, whatever
  the base64 decoder is; when the key type is RSA and the modulus decodes, the error is
  the one that names the exponent.
\<close>

theorem parsePEM_exponent_allowlist:
  "(parsePEM env k = Inr pem \<longrightarrow> (E k = ''AQAB'' \<or> E k = ''AAEAAQ'') \<and> rsa_E pem = 65537)
   \<and> (SetPEM env k = Inr k' \<longrightarrow>
        (E k = ''AQAB'' \<or> E k = ''AAEAAQ'') \<and> (\<exists>pem. PEM k' = Some pem \<and> rsa_E pem = 65537))
   \<and> (E k \<noteq> ''AQAB'' \<and> E k \<noteq> ''AAEAAQ'' \<longrightarrow>
        (\<exists>err. parsePEM env k = Inl err \<and> SetPEM env k = Inl err))
   \<and> (E k \<noteq> ''AQAB'' \<and> E k \<noteq> ''AAEAAQ'' \<and> Kty k = ''RSA''
        \<and> base64_DecodeString env (N k) = Inr n \<longrightarrow>
        parsePEM env k = Inl (ErrorString (''E '' @ E k @ '' is invalid''))
        \<and> SetPEM env k = Inl (ErrorString (''E '' @ E k @ '' is invalid'')))"
  by (auto simp: parsePEM_def SetPEM_def split: sum.splits)

theorem parsePEM_exponent_allowlist_witness:
  "parsePEM demo_env demo_key = Inr demo_pem
   \<and> rsa_E demo_pem = 65537
   \<and> SetPEM demo_env demo_key = Inr (demo_key\<lparr>PEM := Some demo_pem\<rparr>)
   \<and> parsePEM demo_env (demo_key\<lparr>E := ''AQA''\<rparr>) = Inl (ErrorString ''E AQA is invalid'')
   \<and> SetPEM demo_env (demo_key\<lparr>E := ''AQA''\<rparr>) = Inl (ErrorString ''E AQA is invalid'')"
proof -
  have ok: "parsePEM demo_env demo_key = Inr demo_pem"
    by (simp add: parsePEM_def demo_env_def demo_key_def demo_pem_def SetBytes_def)
  have ok2: "SetPEM demo_env demo_key = Inr (demo_key\<lparr>PEM := Some demo_pem\<rparr>)"
    by (simp add: SetPEM_def demo_env_def demo_key_def demo_pem_def SetBytes_def)
  have bad: "E (demo_key\<lparr>E := ''AQA''\<rparr>) \<noteq> ''AQAB'' \<and> E (demo_key\<lparr>E := ''AQA''\<rparr>) \<noteq> ''AAEAAQ''
      \<and> Kty (demo_key\<lparr>E := ''AQA''\<rparr>) = ''RSA''
      \<and> base64_DecodeString demo_env (N (demo_key\<lparr>E := ''AQA''\<rparr>)) = Inr [CHR 0x01]"
    by (simp add: demo_env_def demo_key_def)
  from parsePEM_exponent_allowlist [of demo_env demo_key demo_pem "demo_key\<lparr>PEM := Some demo_pem\<rparr>"] ok ok2
    parsePEM_exponent_allowlist [of demo_env "demo_key\<lparr>E := ''AQA''\<rparr>" _ _ "[CHR 0x01]"] bad
  show ?thesis by simp
qed

text \<open>
  Claim C7. When the JWKS document is fetched and decoded and its \<open>keys\<close> array holds at
  least one malformed entry, \<open>getPublicKeys\<close> (in both listings) returns an error and no
  key set: the array splits into well-formed entries, the first malformed entry and the
  rest, and the error returned is the one of that first malformed entry, whatever the
  rest holds.
\<close>

theorem getPublicKeys_all_or_nothing:
  assumes "http_Get env url = Inr body"
    and "json_Decode_keys env body = Inr keys"
    and "\<exists>k\<in>set keys. malformed_entry env k"
  shows "\<exists>good bad rest err.
           keys = good @ bad # rest
           \<and> (\<forall>k\<in>set good. \<not> malformed_entry env k)
           \<and> malformed_entry env bad
           \<and> parsePEM env bad = Inl err
           \<and> fst (getPublicKeys env url) = Inl err
           \<and> fst (getPublicKeys2 env url) = Inl err"
proof -
  from split_list_first_prop [OF assms(3)] obtain good bad rest where
    split: "keys = good @ bad # rest" and bad: "malformed_entry env bad"
    and good: "\<forall>k\<in>set good. \<not> malformed_entry env k"
    by blast
  from bad obtain err where err: "parsePEM env bad = Inl err"
    using parsePEM_fails_iff [of env bad] by auto
  have "keys_loop env keys Map.empty = Inl err"
    unfolding split using good err by (rule keys_loop_first_failure)
  with assms(1,2) have "fst (getPublicKeys env url) = Inl err"
    by (simp add: getPublicKeys_def)
  with split good bad err show ?thesis
    by (auto simp: getPublicKeys2_eq)
qed

theorem getPublicKeys_all_or_nothing_witness:
  "fst (getPublicKeys demo_env_three_keys ''https://issuer/pool/.well-known/jwks.json'')
     = Inl (ErrorString ''KTY EC must be RSA'')
   \<and> fst (getPublicKeys2 demo_env_three_keys ''https://issuer/pool/.well-known/jwks.json'')
     = Inl (ErrorString ''KTY EC must be RSA'')"
proof -
  let ?keys = "[demo_key, demo_key\<lparr>Kid := ''k2'', Kty := ''EC''\<rparr>, demo_key\<lparr>Kid := ''k3''\<rparr>]"
  let ?url = "''https://issuer/pool/.well-known/jwks.json''"
  have get: "http_Get demo_env_three_keys ?url = Inr ''jwks''"
    by (simp add: demo_env_three_keys_def demo_env_def)
  have dec: "json_Decode_keys demo_env_three_keys ''jwks'' = Inr ?keys"
    by (simp add: demo_env_three_keys_def demo_env_def)
  have bad: "\<exists>k\<in>set ?keys. malformed_entry demo_env_three_keys k"
    by (simp add: malformed_entry_def demo_key_def)
  from getPublicKeys_all_or_nothing [OF get dec bad]
  obtain good bad rest err where
    *: "?keys = good @ bad # rest" "\<forall>k\<in>set good. \<not> malformed_entry demo_env_three_keys k"
       "malformed_entry demo_env_three_keys bad" "parsePEM demo_env_three_keys bad = Inl err"
       "fst (getPublicKeys demo_env_three_keys ?url) = Inl err"
       "fst (getPublicKeys2 demo_env_three_keys ?url) = Inl err"
    by blast
  have "fst (getPublicKeys demo_env_three_keys ?url) = Inl (ErrorString ''KTY EC must be RSA'')"
    by (simp add: getPublicKeys_def demo_env_three_keys_def demo_env_def parsePEM_def
        demo_key_def SetBytes_def)
  with * show ?thesis by simp
qed

section \<open>Construction: properties\<close>

text \<open>
  Claim C8. When the region or the pool identifier is the empty string, \<open>NewCognitoClient\<close>
  and \<open>NewCognito\<close> return the invalid-parameter error, no verifier, and have requested no
  URL.
\<close>

theorem NewCognito_empty_identifier:
  assumes "region = '''' \<or> usePoolId = ''''"
  shows "NewCognitoClient env region usePoolId clientId
           = (Inl (WrapError ''invalid region or use pool id: invalid param'' ErrInvalidParam), [])
         \<and> NewCognito env region usePoolId clientId
           = (Inl (WrapError ''invalid region or use pool id: invalid param'' ErrInvalidParam), [])"
  using assms by (auto simp: NewCognitoClient_def NewCognito_def)

theorem NewCognito_empty_identifier_witness:
  "NewCognitoClient demo_env '''' ''pool'' ''app1''
     = (Inl (WrapError ''invalid region or use pool id: invalid param'' ErrInvalidParam), [])
   \<and> NewCognito demo_env ''us-east-1'' '''' ''app1''
     = (Inl (WrapError ''invalid region or use pool id: invalid param'' ErrInvalidParam), [])"
  using NewCognito_empty_identifier [of "''''" "''pool''" demo_env "''app1''"]
    NewCognito_empty_identifier [of "''us-east-1''" "''''" demo_env "''app1''"]
  by simp

text \<open>
  The verifier that \<open>NewCognitoClient\<close> builds has the identity-provider URL as its issuer
  and has requested that URL plus \<open>/.well-known/jwks.json\<close>.
\<close>

lemma NewCognitoClient_issuer:
  assumes "NewCognitoClient env region usePoolId clientId = (Inr c, reqs)"
  shows "Iss c = ''https://cognito-idp.'' @ region @ ''.amazonaws.com/'' @ usePoolId
         \<and> reqs = [Iss c @ ''/.well-known/jwks.json'']"
  using assms
  by (auto simp: NewCognitoClient_def getPublicKeys_def Let_def split: if_splits sum.splits prod.splits)

text \<open>
  Claim C2 says that the verifier built by \<open>NewCognito\<close> has the identity-provider URL
  \<open>https://cognito-idp.{region}.amazonaws.com/{pool}\<close>, without a path suffix, as its
  issuer. For region \<open>us-east-1\<close> and pool \<open>pool\<close>, \<open>NewCognito\<close> stores the JWKS endpoint
  URL as the issuer instead, so that the issuer check rejects a token whose \<open>iss\<close> claim is
  the identity-provider URL.
\<close>

theorem NewCognito_issuer_is_jwks_url:
  "NewCognito demo_env ''us-east-1'' ''pool'' ''app1''
     = (Inr \<lparr>ClientId = ''app1'',
             Iss = ''https://cognito-idp.us-east-1.amazonaws.com/pool/.well-known/jwks.json'',
             PublicKeys = [''k1'' \<mapsto> demo_key\<lparr>PEM := Some demo_pem\<rparr>]\<rparr>,
        [''https://cognito-idp.us-east-1.amazonaws.com/pool/.well-known/jwks.json''])
   \<and> VerifyIssuer [''iss'' \<mapsto> JString ''https://cognito-idp.us-east-1.amazonaws.com/pool'']
        ''https://cognito-idp.us-east-1.amazonaws.com/pool/.well-known/jwks.json'' True = False"
  by (simp add: NewCognito_def getPublicKeys2_def demo_env_def SetPEM_def demo_key_def
      demo_pem_def SetBytes_def VerifyIssuer_def verifyIss_def Let_def)

section \<open>Token verification: properties\<close>

text \<open>The two listings verify tokens alike: the only difference is where the signing method is checked.\<close>

lemma getCert2_eq_keyFunc: "getCert2 c = keyFunc c"
  by (rule ext) (simp add: getCert2_def keyFunc_def getCert_def split: option.splits)

lemma VerifyToken2_eq: "VerifyToken2 env c parseNow now tokenStr = VerifyToken env c parseNow now tokenStr"
  by (simp add: VerifyToken2_def VerifyToken_def getCert2_eq_keyFunc)

lemma decoded_Split:
  "decoded env tokenStr = Some (header, claims) \<Longrightarrow> length (Split tokenStr CHR ''.'') = 3"
  by (auto simp: decoded_def split: list.splits)

lemma ParseUnverified_decoded:
  assumes "decoded env tokenStr = Some (header, claims)"
  shows "ParseUnverified env tokenStr =
     (let token = \<lparr>Raw = tokenStr, Method = None, Header = header, Claims = claims,
                   Signature = '''', Valid = False\<rparr>
      in case header ''alg'' of
           Some (JString method) \<Rightarrow>
             if method \<in> set signingMethods
             then Inr (token\<lparr>Method := Some method\<rparr>, Split tokenStr CHR ''.'')
             else Inl (Some token, NewValidationError ''signing method (alg) is unavailable.''
                                     ValidationErrorUnverifiable)
         | _ \<Rightarrow> Inl (Some token, NewValidationError ''signing method (alg) is unspecified.''
                                   ValidationErrorUnverifiable))"
  using assms
  by (auto simp: decoded_def ParseUnverified_def Let_def split: list.splits sum.splits)

lemma RS256_registered: "''RS256'' \<in> set signingMethods"
  by (simp add: signingMethods_def)



lemma Parse_accepts:
  assumes "decoded env tokenStr = Some (header, claims)"
    and "header ''alg'' = Some (JString ''RS256'')"
    and "header ''kid'' = Some (JString kid)"
    and "PublicKeys c kid = Some key"
    and "MapClaims_Valid parseNow claims = None"
    and "Verify env ''RS256'' (Split tokenStr CHR ''.'' ! 0 @ ''.'' @ Split tokenStr CHR ''.'' ! 1)
           (Split tokenStr CHR ''.'' ! 2) (PEM key) = Returns None"
  shows "Parse env parseNow tokenStr (keyFunc c) =
           Returns (Some \<lparr>Raw = tokenStr, Method = Some ''RS256'', Header = header,
                           Claims = claims, Signature = Split tokenStr CHR ''.'' ! 2,
                           Valid = True\<rparr>, None)"
  using assms
  by (simp add: Parse_def ParseUnverified_decoded RS256_registered Let_def keyFunc_def getCert_def)


lemma VerifyToken_after_Parse:
  assumes "Parse env parseNow tokenStr (keyFunc c) = Returns (Some token, None)"
  shows "VerifyToken env c parseNow now tokenStr =
           (if \<not> VerifyAudience (Claims token) (ClientId c) False
            then Returns (Some token, Some (ErrorString ''audience is invalid''))
            else if \<not> VerifyExpiresAt (Claims token) now True
            then Returns (Some token, Some (ErrorString ''token expired''))
            else if \<not> VerifyIssuer (Claims token) (Iss c) True
            then Returns (Some token, Some (ErrorString ''iss is invalid''))
            else Returns (Some token, None))"
  using assms by (simp add: VerifyToken_def)


text \<open>Facts about the concrete environment and tokens.\<close>

lemma Split_not_Nil: "Split s sep \<noteq> []"
  by (induction s) (auto split: list.splits)

lemma Split_no_sep: "sep \<notin> set s \<Longrightarrow> Split s sep = [s]"
  by (induction s) auto

lemma Split_append_sep: "sep \<notin> set h \<Longrightarrow> Split (h @ sep # r) sep = h # Split r sep"
  by (induction h) (auto simp: Split_not_Nil split: list.splits)

lemma Split_compact:
  assumes "CHR ''.'' \<notin> set h" and "CHR ''.'' \<notin> set p"
  shows "Split (compact_token h p) CHR ''.'' = [h, p, ''c2ln'']"
proof -
  have 1: "Split ''c2ln'' CHR ''.'' = [''c2ln'']" by simp
  have 2: "Split (p @ CHR ''.'' # ''c2ln'') CHR ''.'' = [p, ''c2ln'']"
    using Split_append_sep [OF assms(2), of "''c2ln''"] 1 by simp
  have 3: "Split (h @ CHR ''.'' # p @ CHR ''.'' # ''c2ln'') CHR ''.'' = [h, p, ''c2ln'']"
    using Split_append_sep [OF assms(1), of "p @ CHR ''.'' # ''c2ln''"] 2 by simp
  then show ?thesis by (simp add: compact_token_def)
qed

lemma seg_no_dot:
  "CHR ''.'' \<notin> set seg_header_rs256" "CHR ''.'' \<notin> set seg_header_hs256"
  "CHR ''.'' \<notin> set seg_header_nokid" "CHR ''.'' \<notin> set seg_claims_ok"
  "CHR ''.'' \<notin> set seg_claims_past" "CHR ''.'' \<notin> set seg_claims_noaud"
  "CHR ''.'' \<notin> set seg_claims_now" "CHR ''.'' \<notin> set seg_claims_noexp"
  "CHR ''.'' \<notin> set seg_claims_case"
  by (simp_all add: seg_header_rs256_def seg_header_hs256_def seg_header_nokid_def
      seg_claims_ok_def seg_claims_past_def seg_claims_noaud_def seg_claims_now_def
      seg_claims_noexp_def seg_claims_case_def)

lemma demo_decoded:
  assumes "demo_DecodeSegment h = Inr hj" and "demo_json hj = Inr header"
    and "demo_DecodeSegment p = Inr pj" and "demo_json pj = Inr claims"
    and "CHR ''.'' \<notin> set h" and "CHR ''.'' \<notin> set p"
  shows "decoded demo_env (compact_token h p) = Some (header, claims)"
  using assms by (simp add: decoded_def Split_compact demo_env_def)

lemma demo_headers:
  "\<exists>hj. demo_DecodeSegment seg_header_rs256 = Inr hj \<and> demo_json hj = Inr header_rs256"
  "\<exists>hj. demo_DecodeSegment seg_header_hs256 = Inr hj \<and> demo_json hj = Inr header_hs256"
  "\<exists>hj. demo_DecodeSegment seg_header_nokid = Inr hj \<and> demo_json hj = Inr header_nokid"
  by (simp_all add: demo_DecodeSegment_def demo_json_def seg_header_rs256_def
      seg_header_hs256_def seg_header_nokid_def)

lemma demo_claims:
  "\<exists>pj. demo_DecodeSegment seg_claims_ok = Inr pj \<and> demo_json pj = Inr claims_ok"
  "\<exists>pj. demo_DecodeSegment seg_claims_past = Inr pj \<and> demo_json pj = Inr claims_past"
  "\<exists>pj. demo_DecodeSegment seg_claims_noaud = Inr pj \<and> demo_json pj = Inr claims_noaud"
  "\<exists>pj. demo_DecodeSegment seg_claims_now = Inr pj \<and> demo_json pj = Inr claims_now"
  "\<exists>pj. demo_DecodeSegment seg_claims_noexp = Inr pj \<and> demo_json pj = Inr claims_noexp"
  "\<exists>pj. demo_DecodeSegment seg_claims_case = Inr pj \<and> demo_json pj = Inr claims_case"
  by (simp_all add: demo_DecodeSegment_def demo_json_def seg_header_rs256_def
      seg_header_hs256_def seg_header_nokid_def seg_claims_ok_def seg_claims_past_def
      seg_claims_noaud_def seg_claims_now_def seg_claims_noexp_def seg_claims_case_def)

lemma demo_decoded_tokens:
  "decoded demo_env (compact_token seg_header_rs256 seg_claims_ok) = Some (header_rs256, claims_ok)"
  "decoded demo_env (compact_token seg_header_rs256 seg_claims_past) = Some (header_rs256, claims_past)"
  "decoded demo_env (compact_token seg_header_rs256 seg_claims_noaud) = Some (header_rs256, claims_noaud)"
  "decoded demo_env (compact_token seg_header_rs256 seg_claims_now) = Some (header_rs256, claims_now)"
  "decoded demo_env (compact_token seg_header_rs256 seg_claims_noexp) = Some (header_rs256, claims_noexp)"
  "decoded demo_env (compact_token seg_header_rs256 seg_claims_case) = Some (header_rs256, claims_case)"
  "decoded demo_env (compact_token seg_header_hs256 seg_claims_ok) = Some (header_hs256, claims_ok)"
  "decoded demo_env (compact_token seg_header_nokid seg_claims_ok) = Some (header_nokid, claims_ok)"
  using demo_headers demo_claims by (auto intro!: demo_decoded simp: seg_no_dot)

lemma demo_Parse_accepts:
  assumes "decoded demo_env (compact_token seg_header_rs256 p) = Some (header_rs256, claims)"
    and "CHR ''.'' \<notin> set p"
    and "MapClaims_Valid parseNow claims = None"
  shows "Parse demo_env parseNow (compact_token seg_header_rs256 p) (keyFunc demo_cognito) =
           Returns (Some (demo_token (compact_token seg_header_rs256 p) header_rs256 claims), None)"
proof -
  have "Parse demo_env parseNow (compact_token seg_header_rs256 p) (keyFunc demo_cognito) =
          Returns (Some \<lparr>Raw = compact_token seg_header_rs256 p, Method = Some ''RS256'',
                          Header = header_rs256, Claims = claims,
                          Signature = Split (compact_token seg_header_rs256 p) CHR ''.'' ! 2,
                          Valid = True\<rparr>, None)"
    using assms(1) _ _ _ assms(3)
  proof (rule Parse_accepts)
    show "header_rs256 ''alg'' = Some (JString ''RS256'')" by (simp add: header_rs256_def)
    show "header_rs256 ''kid'' = Some (JString ''k1'')" by (simp add: header_rs256_def)
    show "PublicKeys demo_cognito ''k1'' = Some (demo_key\<lparr>PEM := Some demo_pem\<rparr>)"
      by (simp add: demo_cognito_def)
    show "Verify demo_env ''RS256''
            (Split (compact_token seg_header_rs256 p) CHR ''.'' ! 0 @ ''.''
               @ Split (compact_token seg_header_rs256 p) CHR ''.'' ! 1)
            (Split (compact_token seg_header_rs256 p) CHR ''.'' ! 2)
            (PEM (demo_key\<lparr>PEM := Some demo_pem\<rparr>)) = Returns None"
      using assms(2) by (simp add: Split_compact seg_no_dot demo_env_def)
  qed
  then show ?thesis
    using assms(2) by (simp add: demo_token_def Split_compact seg_no_dot)
qed

lemma demo_claims_valid:
  "MapClaims_Valid 2000 claims_ok = None" "MapClaims_Valid 2000 claims_noaud = None"
  "MapClaims_Valid 2000 claims_now = None" "MapClaims_Valid 2000 claims_noexp = None"
  "MapClaims_Valid 2000 claims_case = None"
  by (simp_all add: MapClaims_Valid_def Let_def VerifyExpiresAt_def VerifyIssuedAt_def
      VerifyNotBefore_def verifyExp_def int64_of_float64_def claims_ok_def claims_noaud_def
      claims_now_def claims_noexp_def claims_case_def)


lemma VerifyAudience_iff:
  "VerifyAudience m cmp False \<longleftrightarrow> \<not> (\<exists>aud. m ''aud'' = Some (JString aud) \<and> aud \<noteq> '''' \<and> aud \<noteq> cmp)"
  by (auto simp: VerifyAudience_def verifyAud_def split: option.splits json.splits)

lemma VerifyExpiresAt_iff:
  "VerifyExpiresAt m now True \<longleftrightarrow>
     (\<exists>e. m ''exp'' = Some (JNumber e) \<and> int64_of_float64 e \<noteq> 0 \<and> now \<le> int64_of_float64 e)"
  by (auto simp: VerifyExpiresAt_def verifyExp_def split: option.splits json.splits)

text \<open>
  Claim C5. For every token string whose segments decode and whose header does not declare
  the algorithm \<open>RS256\<close>, \<open>VerifyToken\<close> (in both listings) returns no token and a
  signing-method error: the package's own error when the declared algorithm is another
  registered method, and the parser's error when it is not registered or not a string.
  The result does not depend on the verifier, hence not on its key set, and the key id of
  the header is never read (no panic when it is absent).
\<close>

theorem VerifyToken_wrong_alg:
  assumes "decoded env tokenStr = Some (header, claims)"
    and "header ''alg'' \<noteq> Some (JString ''RS256'')"
  shows "VerifyToken env c parseNow now tokenStr =
           Returns (None, Some
             (case header ''alg'' of
                Some (JString alg) \<Rightarrow>
                  if alg \<in> set signingMethods
                  then ValidationError
                         (Some (ErrorString (''invalid signing method '' @ alg
                                  @ ''. signing method must be RS256'')))
                         ValidationErrorUnverifiable ''''
                  else NewValidationError ''signing method (alg) is unavailable.''
                         ValidationErrorUnverifiable
              | _ \<Rightarrow> NewValidationError ''signing method (alg) is unspecified.''
                       ValidationErrorUnverifiable))
         \<and> VerifyToken2 env c parseNow now tokenStr = VerifyToken env c parseNow now tokenStr"
  using assms
  by (auto simp: VerifyToken2_eq VerifyToken_def Parse_def ParseUnverified_decoded keyFunc_def Let_def
      split: option.splits json.splits)

theorem VerifyToken_wrong_alg_witness:
  "VerifyToken demo_env demo_cognito 2000 2000 (compact_token seg_header_hs256 seg_claims_ok)
     = Returns (None, Some (ValidationError
                  (Some (ErrorString ''invalid signing method HS256. signing method must be RS256''))
                  ValidationErrorUnverifiable ''''))
   \<and> VerifyToken2 demo_env demo_cognito 2000 2000 (compact_token seg_header_hs256 seg_claims_ok)
     = VerifyToken demo_env demo_cognito 2000 2000 (compact_token seg_header_hs256 seg_claims_ok)"
proof -
  have alg: "header_hs256 ''alg'' \<noteq> Some (JString ''RS256'')"
    by (simp add: header_hs256_def)
  from VerifyToken_wrong_alg [OF demo_decoded_tokens(7) alg, of demo_cognito 2000 2000]
  show ?thesis
    by (simp add: header_hs256_def signingMethods_def)
qed

text \<open>
  Claim C10. For every token string whose segments decode, whose header declares the
  algorithm \<open>RS256\<close> and whose header entry \<open>kid\<close> is absent or not a string, \<open>VerifyToken\<close>
  (in both listings) panics with the interface-conversion message of the unchecked type
  assertion in \<open>getCert\<close>; it returns neither a token nor an error.
\<close>

theorem VerifyToken_missing_kid_panics:
  assumes "decoded env tokenStr = Some (header, claims)"
    and "header ''alg'' = Some (JString ''RS256'')"
    and "\<forall>kid. header ''kid'' \<noteq> Some (JString kid)"
  shows "VerifyToken env c parseNow now tokenStr =
           Panics (''interface conversion: interface {} is '' @ typeName (header ''kid'')
                   @ '', not string'')
         \<and> VerifyToken2 env c parseNow now tokenStr =
           Panics (''interface conversion: interface {} is '' @ typeName (header ''kid'')
                   @ '', not string'')"
  using assms
  by (auto simp: VerifyToken2_eq VerifyToken_def Parse_def ParseUnverified_decoded keyFunc_def
      getCert_def RS256_registered Let_def split: option.splits json.splits)

theorem VerifyToken_missing_kid_panics_witness:
  "VerifyToken demo_env demo_cognito 2000 2000 (compact_token seg_header_nokid seg_claims_ok)
     = Panics ''interface conversion: interface {} is nil, not string''
   \<and> VerifyToken2 demo_env demo_cognito 2000 2000 (compact_token seg_header_nokid seg_claims_ok)
     = Panics ''interface conversion: interface {} is nil, not string''"
proof -
  have alg: "header_nokid ''alg'' = Some (JString ''RS256'')"
    by (simp add: header_nokid_def)
  have kid: "\<forall>kid. header_nokid ''kid'' \<noteq> Some (JString kid)"
    by (simp add: header_nokid_def)
  from VerifyToken_missing_kid_panics [OF demo_decoded_tokens(8) alg kid, of demo_cognito 2000 2000]
  show ?thesis
    by (simp add: header_nokid_def)
qed




text \<open>
  Claim C3, amended. For every token for which \<^verbatim>\<open>jwt.Parse\<close> returns no error, the
  audience check fails, and \<open>VerifyToken\<close> (in both listings) returns the error
  \<open>audience is invalid\<close>, exactly when the \<open>aud\<close> claim is a non-empty string different from
  the configured client identifier (byte for byte, so case-sensitively). The check passes
  when the claim equals the client identifier, and also when it is absent, empty or not a
  string.
\<close>

theorem VerifyToken_audience_check:
  assumes "Parse env parseNow tokenStr (keyFunc c) = Returns (Some token, None)"
  shows "(VerifyToken env c parseNow now tokenStr
            = Returns (Some token, Some (ErrorString ''audience is invalid''))
          \<longleftrightarrow> (\<exists>aud. Claims token ''aud'' = Some (JString aud) \<and> aud \<noteq> '''' \<and> aud \<noteq> ClientId c))
         \<and> (VerifyAudience (Claims token) (ClientId c) False
          \<longleftrightarrow> \<not> (\<exists>aud. Claims token ''aud'' = Some (JString aud) \<and> aud \<noteq> '''' \<and> aud \<noteq> ClientId c))
         \<and> VerifyToken2 env c parseNow now tokenStr = VerifyToken env c parseNow now tokenStr"
  using assms
  by (simp add: VerifyToken_after_Parse VerifyToken2_eq VerifyAudience_iff)

theorem VerifyToken_audience_check_witness:
  "VerifyToken demo_env demo_cognito 2000 2000 (compact_token seg_header_rs256 seg_claims_case)
     = Returns (Some (demo_token (compact_token seg_header_rs256 seg_claims_case) header_rs256 claims_case),
                Some (ErrorString ''audience is invalid''))
   \<and> VerifyAudience claims_ok ''app1'' False"
proof -
  let ?s = "compact_token seg_header_rs256 seg_claims_case"
  let ?t = "demo_token ?s header_rs256 claims_case"
  let ?s' = "compact_token seg_header_rs256 seg_claims_ok"
  let ?t' = "demo_token ?s' header_rs256 claims_ok"
  have parse: "Parse demo_env 2000 ?s (keyFunc demo_cognito) = Returns (Some ?t, None)"
    by (rule demo_Parse_accepts) (simp_all add: demo_decoded_tokens seg_no_dot demo_claims_valid)
  have parse': "Parse demo_env 2000 ?s' (keyFunc demo_cognito) = Returns (Some ?t', None)"
    by (rule demo_Parse_accepts) (simp_all add: demo_decoded_tokens seg_no_dot demo_claims_valid)
  have aud: "\<exists>aud. Claims ?t ''aud'' = Some (JString aud) \<and> aud \<noteq> '''' \<and> aud \<noteq> ClientId demo_cognito"
    by (simp add: demo_token_def claims_case_def demo_cognito_def)
  have aud': "\<not> (\<exists>aud. Claims ?t' ''aud'' = Some (JString aud) \<and> aud \<noteq> ''''
                      \<and> aud \<noteq> ClientId demo_cognito)"
    by (simp add: demo_token_def claims_ok_def demo_cognito_def)
  from VerifyToken_audience_check [OF parse, of 2000] aud
  have 1: "VerifyToken demo_env demo_cognito 2000 2000 ?s
             = Returns (Some ?t, Some (ErrorString ''audience is invalid''))"
    by blast
  from VerifyToken_audience_check [OF parse', of 2000] aud'
  have "VerifyAudience (Claims ?t') (ClientId demo_cognito) False"
    by blast
  then have 2: "VerifyAudience claims_ok ''app1'' False"
    by (simp add: demo_token_def demo_cognito_def)
  from 1 2 show ?thesis by simp
qed

text \<open>
  The claim as stated fails: a correctly signed token without \<open>aud\<close> claim passes the
  audience check and is accepted.
\<close>

theorem VerifyToken_accepts_missing_audience:
  "decoded demo_env (compact_token seg_header_rs256 seg_claims_noaud) = Some (header_rs256, claims_noaud)
   \<and> claims_noaud ''aud'' = None
   \<and> VerifyAudience claims_noaud (ClientId demo_cognito) False
   \<and> VerifyToken demo_env demo_cognito 2000 2000 (compact_token seg_header_rs256 seg_claims_noaud)
       = Returns (Some (demo_token (compact_token seg_header_rs256 seg_claims_noaud)
                          header_rs256 claims_noaud), None)"
proof -
  let ?s = "compact_token seg_header_rs256 seg_claims_noaud"
  let ?t = "demo_token ?s header_rs256 claims_noaud"
  have parse: "Parse demo_env 2000 ?s (keyFunc demo_cognito) = Returns (Some ?t, None)"
    by (rule demo_Parse_accepts) (simp_all add: demo_decoded_tokens seg_no_dot demo_claims_valid)
  have checks: "VerifyAudience claims_noaud (ClientId demo_cognito) False"
    "VerifyExpiresAt claims_noaud 2000 True" "VerifyIssuer claims_noaud (Iss demo_cognito) True"
    by (simp_all add: claims_noaud_def demo_cognito_def VerifyAudience_def verifyAud_def
        VerifyExpiresAt_def verifyExp_def int64_of_float64_def VerifyIssuer_def verifyIss_def)
  have "VerifyToken demo_env demo_cognito 2000 2000 ?s = Returns (Some ?t, None)"
    using checks by (simp add: VerifyToken_after_Parse [OF parse] demo_token_def)
  then show ?thesis
    using checks(1) by (simp add: demo_decoded_tokens claims_noaud_def)
qed

text \<open>
  Claim C4, amended. For every token for which \<^verbatim>\<open>jwt.Parse\<close> returns no error and which
  passes the audience check, the expiry check passes, and \<open>VerifyToken\<close> (in both listings)
  does not return the error \<open>token expired\<close>, exactly when the \<open>exp\<close> claim is a number
  whose integer part is not zero and is greater than or equal to the current time of the
  call. An absent or non-numeric \<open>exp\<close> claim is rejected as expired.
\<close>

theorem VerifyToken_expiry_check:
  assumes "Parse env parseNow tokenStr (keyFunc c) = Returns (Some token, None)"
    and "VerifyAudience (Claims token) (ClientId c) False"
  shows "(VerifyToken env c parseNow now tokenStr
            \<noteq> Returns (Some token, Some (ErrorString ''token expired''))
          \<longleftrightarrow> (\<exists>e. Claims token ''exp'' = Some (JNumber e) \<and> int64_of_float64 e \<noteq> 0
                    \<and> now \<le> int64_of_float64 e))
         \<and> (VerifyExpiresAt (Claims token) now True
          \<longleftrightarrow> (\<exists>e. Claims token ''exp'' = Some (JNumber e) \<and> int64_of_float64 e \<noteq> 0
                    \<and> now \<le> int64_of_float64 e))
         \<and> VerifyToken2 env c parseNow now tokenStr = VerifyToken env c parseNow now tokenStr"
  using assms
  by (simp add: VerifyToken_after_Parse VerifyToken2_eq VerifyExpiresAt_iff)

theorem VerifyToken_expiry_check_witness:
  "VerifyToken demo_env demo_cognito 2000 2000 (compact_token seg_header_rs256 seg_claims_noexp)
     = Returns (Some (demo_token (compact_token seg_header_rs256 seg_claims_noexp) header_rs256 claims_noexp),
                Some (ErrorString ''token expired''))
   \<and> VerifyExpiresAt claims_ok 2000 True"
proof -
  let ?s = "compact_token seg_header_rs256 seg_claims_noexp"
  let ?t = "demo_token ?s header_rs256 claims_noexp"
  let ?s' = "compact_token seg_header_rs256 seg_claims_ok"
  let ?t' = "demo_token ?s' header_rs256 claims_ok"
  have parse: "Parse demo_env 2000 ?s (keyFunc demo_cognito) = Returns (Some ?t, None)"
    by (rule demo_Parse_accepts) (simp_all add: demo_decoded_tokens seg_no_dot demo_claims_valid)
  have parse': "Parse demo_env 2000 ?s' (keyFunc demo_cognito) = Returns (Some ?t', None)"
    by (rule demo_Parse_accepts) (simp_all add: demo_decoded_tokens seg_no_dot demo_claims_valid)
  have aud: "VerifyAudience (Claims ?t) (ClientId demo_cognito) False"
    by (simp add: demo_token_def claims_noexp_def demo_cognito_def VerifyAudience_def verifyAud_def)
  have aud': "VerifyAudience (Claims ?t') (ClientId demo_cognito) False"
    by (simp add: demo_token_def claims_ok_def demo_cognito_def VerifyAudience_def verifyAud_def)
  have noexp: "\<not> (\<exists>e. Claims ?t ''exp'' = Some (JNumber e) \<and> int64_of_float64 e \<noteq> 0
                      \<and> 2000 \<le> int64_of_float64 e)"
    by (simp add: demo_token_def claims_noexp_def)
  have exp': "\<exists>e. Claims ?t' ''exp'' = Some (JNumber e) \<and> int64_of_float64 e \<noteq> 0
                      \<and> 2000 \<le> int64_of_float64 e"
    by (simp add: demo_token_def claims_ok_def int64_of_float64_def)
  from VerifyToken_expiry_check [OF parse aud, of 2000] noexp
  have 1: "VerifyToken demo_env demo_cognito 2000 2000 ?s
             = Returns (Some ?t, Some (ErrorString ''token expired''))"
    by blast
  from VerifyToken_expiry_check [OF parse' aud', of 2000] exp'
  have "VerifyExpiresAt (Claims ?t') 2000 True"
    by blast
  then have 2: "VerifyExpiresAt claims_ok 2000 True"
    by (simp add: demo_token_def)
  from 1 2 show ?thesis by simp
qed

text \<open>
  The claim as stated fails: a correctly signed token whose \<open>exp\<close> equals the current time
  (2000) passes the expiry check and is accepted.
\<close>

theorem VerifyToken_accepts_exp_equal_now:
  "decoded demo_env (compact_token seg_header_rs256 seg_claims_now) = Some (header_rs256, claims_now)
   \<and> claims_now ''exp'' = Some (JNumber 2000)
   \<and> VerifyExpiresAt claims_now 2000 True
   \<and> VerifyToken demo_env demo_cognito 2000 2000 (compact_token seg_header_rs256 seg_claims_now)
       = Returns (Some (demo_token (compact_token seg_header_rs256 seg_claims_now)
                          header_rs256 claims_now), None)"
proof -
  let ?s = "compact_token seg_header_rs256 seg_claims_now"
  let ?t = "demo_token ?s header_rs256 claims_now"
  have parse: "Parse demo_env 2000 ?s (keyFunc demo_cognito) = Returns (Some ?t, None)"
    by (rule demo_Parse_accepts) (simp_all add: demo_decoded_tokens seg_no_dot demo_claims_valid)
  have checks: "VerifyAudience claims_now (ClientId demo_cognito) False"
    "VerifyExpiresAt claims_now 2000 True" "VerifyIssuer claims_now (Iss demo_cognito) True"
    by (simp_all add: claims_now_def demo_cognito_def VerifyAudience_def verifyAud_def
        VerifyExpiresAt_def verifyExp_def int64_of_float64_def VerifyIssuer_def verifyIss_def)
  have "VerifyToken demo_env demo_cognito 2000 2000 ?s = Returns (Some ?t, None)"
    using checks by (simp add: VerifyToken_after_Parse [OF parse] demo_token_def)
  then show ?thesis
    using checks(2) by (simp add: demo_decoded_tokens claims_now_def)
qed

section \<open>Bearer extraction: properties\<close>


lemma ToLower_ascii:
  "list_all (\<lambda>c. of_char c < (128::nat)) s \<Longrightarrow> ToLower env s = map asciiLower s"
  by (simp add: ToLower_def)





end
